theory Spec2Isabelle
  imports Complex_Main "HOL-Library.AList" "HOL-Library.Multiset"
begin

section \<open>Classifier (server.py, extract_categories)\<close>

text \<open>
  Strings are lists of characters. \<open>str.lower\<close> is modelled on the ASCII letters;
  every other character is left as it is.
\<close>

definition lower_char :: "char \<Rightarrow> char" where
  "lower_char c =
     (let n = (of_char c :: nat) in if 65 \<le> n \<and> n \<le> 90 then char_of (n + 32) else c)"

definition lower :: "string \<Rightarrow> string" where
  "lower s = map lower_char s"

text \<open>\<open>startswith\<close> and the substring test \<open>kw in text\<close>.\<close>

fun starts_with :: "string \<Rightarrow> string \<Rightarrow> bool" where
  "starts_with [] ys = True"
| "starts_with (x # xs) [] = False"
| "starts_with (x # xs) (y # ys) = (x = y \<and> starts_with xs ys)"

fun str_in :: "string \<Rightarrow> string \<Rightarrow> bool" where
  "str_in kw [] = (kw = [])"
| "str_in kw (c # cs) = (starts_with kw (c # cs) \<or> str_in kw cs)"

text \<open>The keyword table, in the insertion order of the dictionary.\<close>

definition CATEGORY_KEYWORDS :: "(string \<times> string list) list" where
  "CATEGORY_KEYWORDS =
   [(''Science'', [''physics'', ''chemistry'', ''biology'', ''scientist'', ''research'',
                   ''experiment'', ''scientific'', ''theory'', ''discover'']),
    (''History'', [''war'', ''battle'', ''century'', ''ancient'', ''historic'', ''dynasty'',
                   ''empire'', ''revolt'', ''treaty'']),
    (''Geography'', [''country'', ''city'', ''river'', ''mountain'', ''continent'', ''island'',
                     ''region'', ''capital'', ''population'']),
    (''Literature'', [''book'', ''author'', ''novel'', ''poem'', ''playwright'', ''wrote'',
                      ''published'', ''literary'', ''fiction'']),
    (''Arts'', [''painting'', ''sculpture'', ''music'', ''film'', ''artist'', ''museum'',
                ''gallery'', ''exhibition'']),
    (''Sports'', [''game'', ''player'', ''team'', ''championship'', ''tournament'', ''league'',
                  ''score'', ''match'']),
    (''Politics'', [''government'', ''election'', ''president'', ''law'', ''parliament'',
                    ''minister'', ''senate'', ''congress'']),
    (''Religion'', [''god'', ''church'', ''bible'', ''religious'', ''faith'', ''christian'',
                    ''islam'', ''jewish'', ''temple'']),
    (''Nature'', [''animal'', ''plant'', ''species'', ''ecosystem'', ''environment'', ''bird'',
                  ''fish'', ''mammal'']),
    (''Technology'', [''computer'', ''software'', ''internet'', ''engineering'', ''patent'',
                      ''invented'', ''digital'']),
    (''People'', [''born'', ''died'', ''biography'', ''king'', ''queen'', ''president'',
                  ''scientist'', ''author'', ''actor''])]"

definition person_keywords :: "string list" where
  "person_keywords = [''born'', ''died'', ''king'', ''queen'', ''president'', ''emperor'',
                      ''scientist'', ''author'', ''actor'']"

text \<open>\<open>score = sum(1 for kw in keywords if kw in text_lower)\<close>\<close>

definition keyword_score :: "string \<Rightarrow> string list \<Rightarrow> nat" where
  "keyword_score text_lower keywords = length (filter (\<lambda>kw. str_in kw text_lower) keywords)"

definition extract_categories :: "string \<Rightarrow> string list" where
  "extract_categories text =
     (let text_lower = lower text;
          categories = map fst (filter (\<lambda>(category, keywords).
                          0 < keyword_score text_lower keywords) CATEGORY_KEYWORDS);
          categories' =
            (if list_ex (\<lambda>kw. str_in kw text_lower) person_keywords
             then (if ''People'' \<notin> set categories then categories @ [''People''] else categories)
             else categories)
      in if categories' \<noteq> [] then categories' else [''General''])"

section \<open>The store\<close>

text \<open>
  The engine modules talk to an SQLite database. The model keeps the four tables the
  queries read as lists of rows, in rowid order. A NULL duration is \<open>None\<close>.
  Timestamps are whole seconds on one clock; the current time \<open>now\<close> is an argument of
  every operation that reads the clock. Python's integers are \<open>int\<close>. The scores and
  weights, floating-point numbers in Python and SQLite, are modelled as real numbers; the
  split of a feed, where rounding decides an integer, is computed in double precision
  (see \<open>recommend_count\<close>).
\<close>

record article =
  aid :: int
  page_id :: int
  title :: string
  content :: string
  categories :: "string list"
  reading_time :: int
  word_count :: int
  access_count :: int

record engagement_row =
  event_id :: int
  e_article_id :: int
  e_user_id :: string
  event_type :: string
  duration_seconds :: "int option"
  scroll_depth :: real
  timestamp :: int

record db =
  tbl_articles :: "article list"
  tbl_engagement :: "engagement_row list"
  tbl_article_categories :: "(int \<times> int) list"
  tbl_categories :: "(int \<times> string) list"

datatype py_error = ZeroDivisionError

section \<open>Engagement tracker (engine/engagement.py)\<close>

subsection \<open>record_event\<close>

text \<open>
  Modelled from the spec: the declaration of the \<open>engagement\<close> table (schema.sql) is not
  among the sources. \<open>cursor.lastrowid\<close> is the identifier the store gives the new row;
  the spec calls it monotonically increasing, and SQLite's rowid of a new row is one more
  than the largest rowid in the table.
\<close>

definition lastrowid :: "engagement_row list \<Rightarrow> int" where
  "lastrowid rows = (if rows = [] then 1 else Max (set (map event_id rows)) + 1)"

text \<open>
  The INSERT names five columns; the timestamp column takes the store's clock. The
  function issues the INSERT and nothing else: it reads neither \<open>articles\<close> nor any table
  of users, and it opens the connection without switching foreign keys on.
\<close>

definition record_event ::
  "db \<Rightarrow> int \<Rightarrow> int \<Rightarrow> string \<Rightarrow> string \<Rightarrow> int option \<Rightarrow> real \<Rightarrow> db \<times> int" where
  "record_event d now article_id etype user_id duration depth =
     (let new_id = lastrowid (tbl_engagement d);
          row = \<lparr>event_id = new_id, e_article_id = article_id, e_user_id = user_id,
                 event_type = etype, duration_seconds = duration, scroll_depth = depth,
                 timestamp = now\<rparr>
      in (d\<lparr>tbl_engagement := tbl_engagement d @ [row]\<rparr>, new_id))"

subsection \<open>get_user_category_preferences\<close>

text \<open>
  The outer query: \<open>engagement\<close> joined with \<open>articles\<close>, \<open>article_categories\<close> and
  \<open>categories\<close>, restricted to the user and the trailing window. Each row is
  \<open>(article_id, event_type, duration, scroll_depth, timestamp)\<close>.
\<close>

type_synonym pref_row = "int \<times> string \<times> int option \<times> real \<times> int"

definition preference_rows :: "db \<Rightarrow> string \<Rightarrow> int \<Rightarrow> int \<Rightarrow> pref_row list" where
  "preference_rows d user_id days now =
     [(fst ac, event_type e, duration_seconds e, scroll_depth e, timestamp e).
        e \<leftarrow> tbl_engagement d, a \<leftarrow> tbl_articles d, ac \<leftarrow> tbl_article_categories d,
        c \<leftarrow> tbl_categories d,
        e_article_id e = aid a \<and> aid a = fst ac \<and> snd ac = fst c \<and>
        e_user_id e = user_id \<and> now - days * 86400 < timestamp e]"

text \<open>The inner query: the names of the categories of one article.\<close>

definition article_category_names :: "db \<Rightarrow> int \<Rightarrow> string list" where
  "article_category_names d article_id =
     [snd c. c \<leftarrow> tbl_categories d, ac \<leftarrow> tbl_article_categories d,
        fst c = snd ac \<and> fst ac = article_id]"

definition weights :: "(string \<times> real) list" where
  "weights = [(''view'', 1.0), (''read'', 2.0), (''bookmark'', 5.0), (''skip'', -2.0),
              (''scroll'', 0.5)]"

text \<open>\<open>weights.get(event_type, 1.0)\<close>\<close>

definition event_weight :: "string \<Rightarrow> real" where
  "event_weight etype = (case map_of weights etype of None \<Rightarrow> 1.0 | Some w \<Rightarrow> w)"

text \<open>\<open>min((duration or 0) / 600, 1.0)\<close>\<close>

definition time_factor :: "int option \<Rightarrow> real" where
  "time_factor duration =
     min (real_of_int (case duration of None \<Rightarrow> 0 | Some n \<Rightarrow> n) / 600) 1.0"

text \<open>
  \<open>days_ago\<close> is the \<open>days\<close> field of a time difference, the floor of the difference in
  days; \<open>0.9 ** days_ago\<close> takes an integer exponent of either sign.
\<close>

definition days_ago :: "int \<Rightarrow> int \<Rightarrow> int" where
  "days_ago now ts = (now - ts) div 86400"

definition recency_factor :: "int \<Rightarrow> int \<Rightarrow> real" where
  "recency_factor now ts = power_int 0.9 (days_ago now ts)"

definition row_score :: "int \<Rightarrow> pref_row \<Rightarrow> real" where
  "row_score now row =
     (case row of (article_id, etype, duration, depth, ts) \<Rightarrow>
        event_weight etype * time_factor duration * recency_factor now ts)"

text \<open>
  A dictionary is an association list in insertion order. \<open>d.get(k, 0)\<close> and
  \<open>d[k] = v\<close> (the latter is \<open>AList.update\<close>: in place for a key that is present,
  at the end for a new one).
\<close>

definition dict_get :: "(string \<times> real) list \<Rightarrow> string \<Rightarrow> real \<Rightarrow> real" where
  "dict_get m k dflt = (case map_of m k of None \<Rightarrow> dflt | Some v \<Rightarrow> v)"

text \<open>
  The inner loop over the category names of the row's article. The second dictionary of
  the source, \<open>category_counts\<close>, is written in the loop and never read; it is left out.
\<close>

fun add_score :: "real \<Rightarrow> string list \<Rightarrow> (string \<times> real) list \<Rightarrow> (string \<times> real) list" where
  "add_score score [] category_scores = category_scores"
| "add_score score (cat_name # rest) category_scores =
     add_score score rest
       (AList.update cat_name (dict_get category_scores cat_name 0 + score) category_scores)"

text \<open>The outer loop over the rows of the outer query.\<close>

fun accumulate :: "db \<Rightarrow> int \<Rightarrow> pref_row list \<Rightarrow> (string \<times> real) list \<Rightarrow> (string \<times> real) list" where
  "accumulate d now [] category_scores = category_scores"
| "accumulate d now (row # rows) category_scores =
     accumulate d now rows
       (add_score (row_score now row) (article_category_names d (fst row)) category_scores)"

definition category_scores :: "db \<Rightarrow> string \<Rightarrow> int \<Rightarrow> int \<Rightarrow> (string \<times> real) list" where
  "category_scores d user_id days now =
     accumulate d now (preference_rows d user_id days now) []"

text \<open>
  The normalisation. \<open>v / max_score\<close> raises ZeroDivisionError when \<open>max_score\<close> is zero
  and the dictionary has an entry to divide.
\<close>

definition divide_values :: "real \<Rightarrow> (string \<times> real) list \<Rightarrow> py_error + (string \<times> real) list" where
  "divide_values m scores =
     (if scores \<noteq> [] \<and> m = 0 then Inl ZeroDivisionError
      else Inr (map (\<lambda>(k, v). (k, v / m)) scores))"

definition normalize_scores :: "(string \<times> real) list \<Rightarrow> py_error + (string \<times> real) list" where
  "normalize_scores scores =
     (let max_score = (if scores \<noteq> [] then Max (set (map snd scores)) else 1)
      in divide_values max_score scores)"

definition get_user_category_preferences ::
  "db \<Rightarrow> string \<Rightarrow> int \<Rightarrow> int \<Rightarrow> py_error + (string \<times> real) list" where
  "get_user_category_preferences d user_id days now =
     normalize_scores (category_scores d user_id days now)"

section \<open>Recommendation engine (engine/recommendations.py)\<close>

text \<open>
  An article as the engine returns it: a dictionary. The random query does not select
  \<open>access_count\<close>, and the two keys \<open>relevance_score\<close> and \<open>recommendation_type\<close> are
  set by \<open>get_recommendations\<close> only; a key that is absent is \<open>None\<close>.
\<close>

record article_dict =
  d_id :: int
  d_page_id :: int
  d_title :: string
  d_content :: string
  d_categories :: "string list"
  d_reading_time :: int
  d_word_count :: int
  d_access_count :: "int option"
  relevance_score :: "real option"
  recommendation_type :: "string option"

text \<open>
  What the engine takes from outside: SQLite's \<open>a.categories LIKE '%cat%'\<close> on the stored
  text of the categories column (the \<open>categories\<close> field of the model is that text parsed
  by \<open>json.loads\<close>, empty for an empty column), the order \<open>ORDER BY RANDOM()\<close> puts the
  selected rows in, and \<open>random.shuffle\<close>.
\<close>

record env =
  sql_like :: "string \<Rightarrow> article \<Rightarrow> bool"
  sql_random :: "article list \<Rightarrow> article list"
  py_shuffle :: "article_dict list \<Rightarrow> article_dict list"

subsection \<open>_get_category_weights\<close>

text \<open>Rows of the join, before grouping: \<open>(c.name, e.event_type, e.duration_seconds)\<close>.\<close>

type_synonym weight_row = "string \<times> string \<times> int option"

definition weight_rows :: "db \<Rightarrow> string \<Rightarrow> weight_row list" where
  "weight_rows d user_id =
     [(snd c, event_type e, duration_seconds e).
        e \<leftarrow> tbl_engagement d, ac \<leftarrow> tbl_article_categories d, c \<leftarrow> tbl_categories d,
        e_article_id e = fst ac \<and> snd ac = fst c \<and> e_user_id e = user_id]"

definition sql_event_weight :: "string \<Rightarrow> real" where
  "sql_event_weight etype =
     (if etype = ''view'' then 1.0
      else if etype = ''read'' then 2.0
      else if etype = ''bookmark'' then 5.0
      else if etype = ''skip'' then -2.0
      else 0.5)"

definition sql_time_factor :: "int option \<Rightarrow> real" where
  "sql_time_factor duration =
     (case duration of
        None \<Rightarrow> 0.5
      | Some n \<Rightarrow> if 0 < n then min (real_of_int n / 600.0) 1.0 else 0.5)"

text \<open>
  \<open>GROUP BY c.name\<close>: one row per name, with the selected sum and the sum the rows are
  ordered by.
\<close>

definition weight_groups :: "db \<Rightarrow> string \<Rightarrow> (string \<times> real \<times> real) list" where
  "weight_groups d user_id =
     (let rows = weight_rows d user_id
      in map (\<lambda>name.
               (name,
                sum_list [sql_event_weight t * sql_time_factor du. (n, t, du) \<leftarrow> rows, n = name],
                sum_list [sql_event_weight t. (n, t, du) \<leftarrow> rows, n = name]))
             (remdups (map fst rows)))"

text \<open>\<open>ORDER BY SUM(...) DESC LIMIT 50\<close>\<close>

definition weight_query :: "db \<Rightarrow> string \<Rightarrow> (string \<times> real) list" where
  "weight_query d user_id =
     map (\<lambda>(name, total, order_key). (name, total))
       (take 50 (sort_key (\<lambda>(name, total, order_key). - order_key) (weight_groups d user_id)))"

text \<open>\<open>weights[row[0]] = max(0.1, row[1])\<close> for every row of the result.\<close>

fun clamp_rows :: "(string \<times> real) list \<Rightarrow> (string \<times> real) list \<Rightarrow> (string \<times> real) list" where
  "clamp_rows [] w = w"
| "clamp_rows (row # rows) w = clamp_rows rows (AList.update (fst row) (max 0.1 (snd row)) w)"

definition get_category_weights :: "db \<Rightarrow> string \<Rightarrow> py_error + (string \<times> real) list" where
  "get_category_weights d user_id =
     (let w = clamp_rows (weight_query d user_id) []
      in if w \<noteq> [] then divide_values (Max (set (map snd w))) w else Inr w)"

subsection \<open>_get_read_articles\<close>

definition get_read_articles :: "db \<Rightarrow> string \<Rightarrow> int list" where
  "get_read_articles d user_id =
     remdups [e_article_id e. e \<leftarrow> tbl_engagement d,
                e_user_id e = user_id \<and> (event_type e = ''view'' \<or> event_type e = ''read'')]"

subsection \<open>_score_articles\<close>

text \<open>
  The candidate query. The category filter is present only for a non-empty weight
  dictionary; the exclusion filter for an empty set excludes nothing.
\<close>

definition candidate_query :: "env \<Rightarrow> db \<Rightarrow> (string \<times> real) list \<Rightarrow> int set \<Rightarrow> article list" where
  "candidate_query env d category_weights exclude_set =
     take 500 (sort_key (\<lambda>a. - access_count a)
       (filter (\<lambda>a. 0 < aid a \<and>
                    (category_weights = [] \<or>
                     list_ex (\<lambda>(cat, weight). sql_like env cat a) category_weights) \<and>
                    aid a \<notin> exclude_set)
          (tbl_articles d)))"

definition match_scores :: "(string \<times> real) list \<Rightarrow> string list \<Rightarrow> real list" where
  "match_scores category_weights article_cats =
     concat (map (\<lambda>cat. case map_of category_weights cat of None \<Rightarrow> [] | Some w \<Rightarrow> [w])
               article_cats)"

definition category_score :: "(string \<times> real) list \<Rightarrow> article \<Rightarrow> real" where
  "category_score category_weights a =
     (if categories a \<noteq> [] \<and> category_weights \<noteq> []
      then (let ms = match_scores category_weights (categories a)
            in if ms \<noteq> [] then Max (set ms) else 0.5)
      else 0.5)"

definition popularity_boost :: "article \<Rightarrow> real" where
  "popularity_boost a = min (real_of_int (access_count a) / 100) 1.0 * 0.2"

definition total_score :: "(string \<times> real) list \<Rightarrow> article \<Rightarrow> real" where
  "total_score category_weights a =
     category_score category_weights a * 0.7 + popularity_boost a * 0.3"

text \<open>\<open>scored.sort(key=lambda x: x[1], reverse=True)\<close>: a stable sort, descending.\<close>

definition score_articles ::
  "env \<Rightarrow> db \<Rightarrow> (string \<times> real) list \<Rightarrow> int set \<Rightarrow> (article \<times> real) list" where
  "score_articles env d category_weights exclude_set =
     sort_key (\<lambda>(a, score). - score)
       (map (\<lambda>a. (a, total_score category_weights a))
          (candidate_query env d category_weights exclude_set))"

definition row_dict :: "article \<Rightarrow> article_dict" where
  "row_dict a =
     \<lparr>d_id = aid a, d_page_id = page_id a, d_title = title a, d_content = content a,
      d_categories = categories a, d_reading_time = reading_time a,
      d_word_count = word_count a, d_access_count = Some (access_count a),
      relevance_score = None, recommendation_type = None\<rparr>"

subsection \<open>_get_random_articles\<close>

text \<open>
  \<open>LIMIT n\<close>: a negative limit is no limit. The argument \<open>count\<close> of the source is
  written \<open>cnt\<close> from here on.
\<close>

definition sql_limit :: "int \<Rightarrow> 'a list \<Rightarrow> 'a list" where
  "sql_limit n rows = (if n < 0 then rows else take (nat n) rows)"

definition random_dict :: "article \<Rightarrow> article_dict" where
  "random_dict a = (row_dict a)\<lparr>d_access_count := None\<rparr>"

definition get_random_articles :: "env \<Rightarrow> db \<Rightarrow> int set \<Rightarrow> int \<Rightarrow> article_dict list" where
  "get_random_articles env d exclude_set cnt =
     map random_dict
       (sql_limit cnt (sql_random env (filter (\<lambda>a. aid a \<notin> exclude_set) (tbl_articles d))))"

subsection \<open>get_recommendations\<close>

text \<open>
  Python's \<open>float\<close> is the IEEE 754 double: 53 significant bits, results rounded to the
  nearest double, ties to the even significand. \<open>round_mantissa\<close> scales a positive
  number by powers of two into the interval from \<open>2^52\<close> to \<open>2^53\<close>, where the doubles are
  the integers, rounds there and scales back. The exponent is not bounded: an overflow
  to infinity (magnitudes of \<open>2^1024\<close> and more) is not modelled; the split never reaches
  a subnormal number, since a non-zero \<open>1 - feed_mix\<close> is at least \<open>2^-53\<close> in magnitude.
\<close>

definition round_half_even :: "real \<Rightarrow> int" where
  "round_half_even x =
     (let n = \<lfloor>x\<rfloor>; r = x - of_int n
      in if r < 1 / 2 then n else if 1 / 2 < r then n + 1 else if even n then n else n + 1)"

definition mantissa_min :: real where
  "mantissa_min = 2 ^ 52"

function round_mantissa :: "real \<Rightarrow> real" where
  "round_mantissa x =
     (if x \<le> 0 then 0
      else if x < mantissa_min then round_mantissa (2 * x) / 2
      else if 2 * mantissa_min \<le> x then 2 * round_mantissa (x / 2)
      else of_int (round_half_even x))"
  by pat_completeness auto

termination
proof (relation "measures [\<lambda>x. if 0 < x \<and> x < mantissa_min then 1 else 0,
                           \<lambda>x. if x < mantissa_min then nat \<lceil>mantissa_min / x\<rceil>
                               else nat \<lfloor>x\<rfloor>]")
  show "wf (measures [\<lambda>x::real. if 0 < x \<and> x < mantissa_min then 1 else 0,
                      \<lambda>x. if x < mantissa_min then nat \<lceil>mantissa_min / x\<rceil>
                          else nat \<lfloor>x\<rfloor>])"
    by simp
next
  fix x :: real
  assume pos: "\<not> x \<le> 0" and small: "x < mantissa_min"
  show "(2 * x, x) \<in> measures [\<lambda>x. if 0 < x \<and> x < mantissa_min then 1 else 0,
                           \<lambda>x. if x < mantissa_min then nat \<lceil>mantissa_min / x\<rceil>
                               else nat \<lfloor>x\<rfloor>]"
  proof (cases "2 * x < mantissa_min")
    case False
    then show ?thesis using pos small by simp
  next
    case True
    define y where "y = mantissa_min / x"
    have y2: "2 < y" unfolding y_def using True pos by (simp add: less_divide_eq)
    have half: "mantissa_min / (2 * x) = y / 2" unfolding y_def by simp
    have "y / 2 \<le> y - 1" using y2 by simp
    then have "\<lceil>y / 2\<rceil> \<le> \<lceil>y - 1\<rceil>" by (rule ceiling_mono)
    then have "\<lceil>y / 2\<rceil> < \<lceil>y\<rceil>" by simp
    moreover have "0 < \<lceil>y\<rceil>" using y2 by simp
    ultimately have "nat \<lceil>y / 2\<rceil> < nat \<lceil>y\<rceil>" by simp
    then have "nat \<lceil>mantissa_min / (2 * x)\<rceil> < nat \<lceil>mantissa_min / x\<rceil>"
      unfolding half y_def .
    then show ?thesis using True pos small by (simp del: ceiling_divide_eq_div_numeral)
  qed
next
  fix x :: real
  assume pos: "\<not> x \<le> 0" and nsmall: "\<not> x < mantissa_min" and big: "2 * mantissa_min \<le> x"
  have m2: "2 \<le> mantissa_min" by (simp add: mantissa_min_def)
  have x2: "2 \<le> x" using big m2 by simp
  then have "x / 2 \<le> x - 1" by simp
  then have "\<lfloor>x / 2\<rfloor> \<le> \<lfloor>x - 1\<rfloor>" by (rule floor_mono)
  then have "\<lfloor>x / 2\<rfloor> < \<lfloor>x\<rfloor>" by simp
  moreover have "0 < \<lfloor>x\<rfloor>" using x2 by simp
  ultimately have "nat \<lfloor>x / 2\<rfloor> < nat \<lfloor>x\<rfloor>" by simp
  moreover have "\<not> x / 2 < mantissa_min" using big by simp
  ultimately show "(x / 2, x) \<in> measures [\<lambda>x. if 0 < x \<and> x < mantissa_min then 1 else 0,
                           \<lambda>x. if x < mantissa_min then nat \<lceil>mantissa_min / x\<rceil>
                               else nat \<lfloor>x\<rfloor>]"
    using nsmall by simp
qed

declare round_mantissa.simps [simp del]

text \<open>
  The double nearest to a number: the value of a float literal and of an integer converted
  to \<open>float\<close>. Subtraction and multiplication of doubles round the exact result.
\<close>

definition py_float :: "real \<Rightarrow> real" where
  "py_float x = (if x < 0 then - round_mantissa (- x) else round_mantissa x)"

definition float_sub :: "real \<Rightarrow> real \<Rightarrow> real" where
  "float_sub a b = py_float (a - b)"

definition float_mul :: "real \<Rightarrow> real \<Rightarrow> real" where
  "float_mul a b = py_float (a * b)"

text \<open>\<open>int(x)\<close> of a float truncates toward zero.\<close>

definition py_int :: "real \<Rightarrow> int" where
  "py_int x = (if 0 \<le> x then \<lfloor>x\<rfloor> else \<lceil>x\<rceil>)"

text \<open>The slice \<open>xs[:n]\<close>; a negative \<open>n\<close> counts from the end.\<close>

definition py_slice_to :: "int \<Rightarrow> 'a list \<Rightarrow> 'a list" where
  "py_slice_to n xs = (if 0 \<le> n then take (nat n) xs else take (length xs - nat (- n)) xs)"

text \<open>
  \<open>int(count * (1 - feed_mix))\<close>: the subtraction and the product are float operations,
  \<open>count\<close> being converted to \<open>float\<close> for the product.
\<close>

definition recommend_count :: "int \<Rightarrow> real \<Rightarrow> int" where
  "recommend_count cnt feed_mix =
     py_int (float_mul (py_float (real_of_int cnt)) (float_sub 1 feed_mix))"

definition random_count :: "int \<Rightarrow> real \<Rightarrow> int" where
  "random_count cnt feed_mix = cnt - recommend_count cnt feed_mix"

definition tag_recommended :: "article \<times> real \<Rightarrow> article_dict" where
  "tag_recommended p =
     (row_dict (fst p))\<lparr>relevance_score := Some (snd p),
                        recommendation_type := Some ''recommended''\<rparr>"

definition tag_discovery :: "article_dict \<Rightarrow> article_dict" where
  "tag_discovery a = a\<lparr>relevance_score := Some 0.3, recommendation_type := Some ''discovery''\<rparr>"

definition recommended_pool ::
  "env \<Rightarrow> db \<Rightarrow> (string \<times> real) list \<Rightarrow> int set \<Rightarrow> int \<Rightarrow> article_dict list" where
  "recommended_pool env d category_weights exclude_set n =
     (let scored_articles = score_articles env d category_weights exclude_set
      in if scored_articles \<noteq> [] \<and> 0 < n
         then map tag_recommended (take (nat n) scored_articles) else [])"

definition discovery_pool :: "env \<Rightarrow> db \<Rightarrow> int set \<Rightarrow> int \<Rightarrow> article_dict list" where
  "discovery_pool env d exclude_set n =
     (if 0 < n then map tag_discovery (get_random_articles env d exclude_set n) else [])"

definition get_recommendations ::
  "env \<Rightarrow> db \<Rightarrow> string \<Rightarrow> int \<Rightarrow> real \<Rightarrow> int list \<Rightarrow> py_error + article_dict list" where
  "get_recommendations env d user_id cnt feed_mix excluded_articles =
     (case get_category_weights d user_id of
        Inl err \<Rightarrow> Inl err
      | Inr category_weights \<Rightarrow>
          (let read_articles = get_read_articles d user_id;
               exclude_set = set (excluded_articles @ read_articles);
               recommendations =
                 recommended_pool env d category_weights exclude_set
                   (recommend_count cnt feed_mix)
                 @ discovery_pool env d exclude_set (random_count cnt feed_mix)
           in Inr (py_slice_to cnt (py_shuffle env recommendations))))"

text \<open>
  The two random sources give back what they were given, in some order: \<open>ORDER BY RANDOM()\<close>
  returns the selected rows and \<open>random.shuffle\<close> permutes the list.
\<close>

definition permuting :: "env \<Rightarrow> bool" where
  "permuting env =
     ((\<forall>rows. mset (sql_random env rows) = mset rows) \<and>
      (\<forall>xs. mset (py_shuffle env xs) = mset xs))"

section \<open>Example stores\<close>

text \<open>
  Small stores on which the operations are evaluated. All events belong to the default
  user \<open>captain\<close> and carry the timestamp \<open>0\<close>; the operations are run at \<open>now = 0\<close>, so
  every event is zero days old.
\<close>

definition mk_article :: "int \<Rightarrow> string list \<Rightarrow> article" where
  "mk_article i cats =
     \<lparr>aid = i, page_id = i, title = [], content = [], categories = cats,
      reading_time = 0, word_count = 0, access_count = 0\<rparr>"

definition mk_event :: "int \<Rightarrow> int \<Rightarrow> string \<Rightarrow> int \<Rightarrow> engagement_row" where
  "mk_event i article_id etype duration =
     \<lparr>event_id = i, e_article_id = article_id, e_user_id = ''captain'', event_type = etype,
      duration_seconds = Some duration, scroll_depth = 0, timestamp = 0\<rparr>"

text \<open>
  An environment whose random sources leave the order as it is. On the example stores the
  categories column is empty or holds one name, so \<open>LIKE '%cat%'\<close> for a category name
  holds exactly when the name is the one stored.
\<close>

definition env_plain :: env where
  "env_plain =
     \<lparr>sql_like = (\<lambda>cat a. cat \<in> set (categories a)),
      sql_random = (\<lambda>rows. rows),
      py_shuffle = (\<lambda>xs. xs)\<rparr>"

text \<open>No article, no event.\<close>

definition db_empty :: db where
  "db_empty = \<lparr>tbl_articles = [], tbl_engagement = [], tbl_article_categories = [],
               tbl_categories = []\<rparr>"

text \<open>One article without categories, no event.\<close>

definition db_one :: db where
  "db_one = \<lparr>tbl_articles = [mk_article 1 []], tbl_engagement = [],
             tbl_article_categories = [], tbl_categories = []\<rparr>"

text \<open>One Sports article and one skip of ten minutes.\<close>

definition db_skip :: db where
  "db_skip = \<lparr>tbl_articles = [mk_article 1 [''Sports'']],
              tbl_engagement = [mk_event 1 1 ''skip'' 600],
              tbl_article_categories = [(1, 1)], tbl_categories = [(1, ''Sports'')]\<rparr>"

text \<open>One Sports article and one skip of duration zero.\<close>

definition db_zero :: db where
  "db_zero = \<lparr>tbl_articles = [mk_article 1 [''Sports'']],
              tbl_engagement = [mk_event 1 1 ''skip'' 0],
              tbl_article_categories = [(1, 1)], tbl_categories = [(1, ''Sports'')]\<rparr>"

text \<open>
  Article 1 in the two categories Science and History, article 2 in Sports only; each
  was read once for ten minutes.
\<close>

definition db_multi :: db where
  "db_multi = \<lparr>tbl_articles = [mk_article 1 [''Science'', ''History''], mk_article 2 [''Sports'']],
               tbl_engagement = [mk_event 1 1 ''read'' 600, mk_event 2 2 ''read'' 600],
               tbl_article_categories = [(1, 1), (1, 2), (2, 3)],
               tbl_categories = [(1, ''Science''), (2, ''History''), (3, ''Sports'')]\<rparr>"

text \<open>A Science article viewed for ten minutes and a Sports article skipped after ten.\<close>

definition db_mixed :: db where
  "db_mixed = \<lparr>tbl_articles = [mk_article 1 [''Science''], mk_article 2 [''Sports'']],
               tbl_engagement = [mk_event 1 1 ''view'' 600, mk_event 2 2 ''skip'' 600],
               tbl_article_categories = [(1, 1), (2, 2)],
               tbl_categories = [(1, ''Science''), (2, ''Sports'')]\<rparr>"

text \<open>
  Twenty articles, the first in Science and the others without categories; the user
  bookmarked the first for ten minutes (a bookmark does not mark an article as read).
\<close>

definition db_science :: db where
  "db_science = \<lparr>tbl_articles = mk_article 1 [''Science''] # map (\<lambda>i. mk_article i []) [2..20],
                 tbl_engagement = [mk_event 1 1 ''bookmark'' 600],
                 tbl_article_categories = [(1, 1)], tbl_categories = [(1, ''Science'')]\<rparr>"

text \<open>Twenty articles without categories, no event.\<close>

definition db_twenty :: db where
  "db_twenty = \<lparr>tbl_articles = map (\<lambda>i. mk_article i []) [1..20], tbl_engagement = [],
                tbl_article_categories = [], tbl_categories = []\<rparr>"

text \<open>
  A Science article with an event of the kind \<open>share\<close>, which the weight table does not
  list, and a Sports article viewed for five minutes.
\<close>

definition db_share :: db where
  "db_share = \<lparr>tbl_articles = [mk_article 1 [''Science''], mk_article 2 [''Sports'']],
               tbl_engagement = [mk_event 1 1 ''share'' 600, mk_event 2 2 ''view'' 300],
               tbl_article_categories = [(1, 1), (2, 2)],
               tbl_categories = [(1, ''Science''), (2, ''Sports'')]\<rparr>"

text \<open>The identifiers and labels of a returned feed.\<close>

definition feed_labels :: "py_error + article_dict list \<Rightarrow> py_error + (int \<times> string option) list" where
  "feed_labels r = map_sum id (map (\<lambda>x. (d_id x, recommendation_type x))) r"

section \<open>Lemmas\<close>

subsection \<open>Classifier\<close>

lemma no_keywords_general:
  assumes "\<forall>p \<in> set CATEGORY_KEYWORDS. \<forall>kw \<in> set (snd p). \<not> str_in kw (lower text)"
    and "\<forall>kw \<in> set person_keywords. \<not> str_in kw (lower text)"
  shows "extract_categories text = [''General'']"
proof -
  have "filter (\<lambda>(category, keywords). 0 < keyword_score (lower text) keywords) CATEGORY_KEYWORDS = []"
    using assms(1) by (auto simp: filter_empty_conv keyword_score_def)
  moreover have "\<not> list_ex (\<lambda>kw. str_in kw (lower text)) person_keywords"
    using assms(2) by (simp add: list_ex_iff)
  ultimately show ?thesis
    by (simp add: extract_categories_def Let_def)
qed

subsection \<open>Preference weights of the tracker\<close>

lemma event_weight_unknown:
  assumes "etype \<notin> {''view'', ''read'', ''bookmark'', ''skip'', ''scroll''}"
  shows "event_weight etype = 1"
  using assms by (simp add: event_weight_def weights_def)

lemma event_weight_view: "event_weight ''view'' = 1"
  by (simp add: event_weight_def weights_def)

lemma article_category_names_engagement:
  "article_category_names (d\<lparr>tbl_engagement := es\<rparr>) a = article_category_names d a"
  by (simp add: article_category_names_def)

lemma accumulate_cong:
  assumes "\<And>a. article_category_names d' a = article_category_names d a"
    and "list_all2 (\<lambda>r' r. fst r' = fst r \<and> row_score now r' = row_score now r) rows' rows"
  shows "accumulate d' now rows' acc = accumulate d now rows acc"
  using assms(2)
proof (induction rows' rows arbitrary: acc rule: list_all2_induct)
  case Nil
  then show ?case by simp
next
  case (Cons r' rows' r rows)
  then show ?case by (simp add: assms(1))
qed

lemma preference_rows_relabel:
  "preference_rows (d\<lparr>tbl_engagement := map (\<lambda>e. e\<lparr>event_type := f (event_type e)\<rparr>) (tbl_engagement d)\<rparr>) u days now
   = map (\<lambda>(a, t, rest). (a, f t, rest)) (preference_rows d u days now)"
  unfolding preference_rows_def
  by (simp add: map_concat comp_def if_distrib[where f="map _"] cong: if_cong)

lemma divide_values_Inr:
  "divide_values m scores = Inr r \<Longrightarrow> r = map (\<lambda>(k, v). (k, v / m)) scores \<and> (scores = [] \<or> m \<noteq> 0)"
  by (auto simp: divide_values_def split: if_splits)

lemma normalize_scores_Inr:
  assumes "normalize_scores scores = Inr r" "r \<noteq> []"
  shows "scores \<noteq> [] \<and> Max (set (map snd scores)) \<noteq> 0 \<and>
         r = map (\<lambda>(k, v). (k, v / Max (set (map snd scores)))) scores"
  using assms by (auto simp: normalize_scores_def Let_def dest!: divide_values_Inr split: if_splits)

lemma normalized_bounds:
  assumes "normalize_scores scores = Inr r" "r \<noteq> []" "0 < Max (set (map snd scores))"
  shows "(\<exists>k. (k, 1) \<in> set r) \<and> (\<forall>(k, v) \<in> set r. v \<le> 1)"
proof -
  define M where "M = Max (set (map snd scores))"
  from normalize_scores_Inr[OF assms(1,2)]
  have ne: "scores \<noteq> []" and r: "r = map (\<lambda>(k, v). (k, v / M)) scores"
    by (simp_all add: M_def)
  have M0: "0 < M" using assms(3) by (simp add: M_def)
  have "M \<in> set (map snd scores)"
    unfolding M_def using ne by (intro Max_in) simp_all
  then obtain k where "(k, M) \<in> set scores" by auto
  then have "(k, M / M) \<in> set r" unfolding r by force
  then have one: "\<exists>k. (k, 1) \<in> set r" using M0 by auto
  have le: "v \<le> M" if "(k, v) \<in> set scores" for k v
    unfolding M_def using that by (intro Max_ge) force+
  have "\<forall>(k, v) \<in> set r. v \<le> 1"
    using M0 le unfolding r by (auto simp: divide_le_eq)
  with one show ?thesis by blast
qed

subsection \<open>Category weights of the recommendation path\<close>

lemma clamp_rows_values:
  "\<forall>p \<in> set w. 0.1 \<le> snd p \<Longrightarrow> \<forall>p \<in> set (clamp_rows rows w). (0.1::real) \<le> snd p"
proof (induction rows arbitrary: w)
  case Nil
  then show ?case by simp
next
  case (Cons row rows)
  have "set (AList.update (fst row) (max 0.1 (snd row)) w) \<subseteq> insert (fst row, max 0.1 (snd row)) (set w)"
    by (induction w) auto
  with Cons.prems have "\<forall>p \<in> set (AList.update (fst row) (max 0.1 (snd row)) w). 0.1 \<le> snd p"
    by fastforce
  from Cons.IH[OF this] show ?case by simp
qed

lemma clamp_rows_keys: "fst ` set (clamp_rows rows w) = fst ` set rows \<union> fst ` set w"
  by (induction rows arbitrary: w) (auto simp: dom_update)

lemma get_category_weights_total:
  "\<exists>w. get_category_weights d user_id = Inr w \<and> (\<forall>p \<in> set w. 0 < snd p \<and> snd p \<le> 1) \<and>
       fst ` set w = fst ` set (weight_query d user_id)"
proof -
  define c where "c = clamp_rows (weight_query d user_id) []"
  define M where "M = Max (set (map snd c))"
  have vals: "\<forall>p \<in> set c. 0.1 \<le> snd p"
    unfolding c_def by (rule clamp_rows_values) simp
  have keys: "fst ` set c = fst ` set (weight_query d user_id)"
    unfolding c_def by (simp add: clamp_rows_keys)
  show ?thesis
  proof (cases "c = []")
    case True
    then show ?thesis using keys
      by (simp add: get_category_weights_def c_def[symmetric] Let_def)
  next
    case False
    then have "M \<in> set (map snd c)" unfolding M_def by (intro Max_in) simp_all
    then have Mge: "0.1 \<le> M" using vals by auto
    have le: "snd p \<le> M" if "p \<in> set c" for p
      unfolding M_def using that by (intro Max_ge) auto
    have M': "Max (snd ` set c) = M" by (simp add: M_def)
    have res: "get_category_weights d user_id = Inr (map (\<lambda>(k, v). (k, v / M)) c)"
      using False Mge
      by (simp add: get_category_weights_def c_def[symmetric] Let_def M' divide_values_def)
    have "\<forall>p \<in> set (map (\<lambda>(k, v). (k, v / M)) c). 0 < snd p \<and> snd p \<le> 1"
      using vals le Mge by (fastforce simp: divide_le_eq)
    moreover have "fst ` set (map (\<lambda>(k, v). (k, v / M)) c) = fst ` set c"
      by force
    ultimately show ?thesis using res keys by auto
  qed
qed

subsection \<open>The two pools of a feed\<close>

lemma distinct_map_mset_subset:
  assumes "mset xs \<subseteq># mset ys" and "distinct (map f ys)"
  shows "distinct (map f xs)"
proof -
  have "mset (map f xs) \<subseteq># mset (map f ys)"
    using assms(1) by (simp add: image_mset_subseteq_mono)
  then have "count (mset (map f xs)) a \<le> count (mset (map f ys)) a" for a
    by (rule mset_subset_eq_count)
  moreover have "count (mset (map f ys)) a \<le> 1" for a
    using assms(2) by (simp add: distinct_count_atmost_1)
  ultimately have "count (mset (map f xs)) a \<le> 1" for a
    using le_trans by blast
  then show ?thesis
    unfolding distinct_count_atmost_1
    by (metis count_mset_0_iff le_neq_implies_less less_one)
qed

lemma mset_take_subset: "mset (take n xs) \<subseteq># mset xs"
proof -
  have "mset xs = mset (take n xs) + mset (drop n xs)"
    by (metis append_take_drop_id mset_append)
  then show ?thesis by simp
qed

lemma mset_sql_limit_subset: "mset (sql_limit n xs) \<subseteq># mset xs"
  by (simp add: sql_limit_def mset_take_subset)

lemma mset_py_slice_to_subset: "mset (py_slice_to n xs) \<subseteq># mset xs"
  by (simp add: py_slice_to_def mset_take_subset)

lemma mset_candidate_query_subset:
  "mset (candidate_query env d w ex) \<subseteq># mset (tbl_articles d)"
proof -
  have "mset (candidate_query env d w ex) \<subseteq>#
        mset (sort_key (\<lambda>a. - access_count a)
       (filter (\<lambda>a. 0 < aid a \<and>
                    (w = [] \<or> list_ex (\<lambda>(cat, weight). sql_like env cat a) w) \<and>
                    aid a \<notin> ex)
          (tbl_articles d)))"
    unfolding candidate_query_def by (rule mset_take_subset)
  also have "\<dots> \<subseteq># mset (tbl_articles d)" by simp
  finally show ?thesis .
qed

lemma candidate_query_not_excluded:
  "a \<in> set (candidate_query env d w ex) \<Longrightarrow> aid a \<notin> ex \<and> a \<in> set (tbl_articles d)"
  unfolding candidate_query_def by (auto dest!: in_set_takeD)

lemma map_fst_score_articles:
  "mset (map fst (score_articles env d w ex)) = mset (candidate_query env d w ex)"
  by (simp add: score_articles_def comp_def image_mset.compositionality)

lemma d_id_tag_recommended [simp]: "d_id (tag_recommended p) = aid (fst p)"
  by (simp add: tag_recommended_def row_dict_def)

lemma type_tag_recommended [simp]: "recommendation_type (tag_recommended p) = Some ''recommended''"
  by (simp add: tag_recommended_def)

lemma d_id_tag_discovery [simp]: "d_id (tag_discovery (random_dict a)) = aid a"
  by (simp add: tag_discovery_def random_dict_def row_dict_def)

lemma type_tag_discovery [simp]: "recommendation_type (tag_discovery x) = Some ''discovery''"
  by (simp add: tag_discovery_def)

lemma recommended_pool_ids:
  "\<exists>rows. map d_id (recommended_pool env d w ex n) = map aid rows \<and>
          mset rows \<subseteq># mset (tbl_articles d) \<and> (\<forall>a \<in> set rows. aid a \<notin> ex)"
proof (cases "score_articles env d w ex \<noteq> [] \<and> 0 < n")
  case True
  let ?rows = "map fst (take (nat n) (score_articles env d w ex))"
  have "map d_id (recommended_pool env d w ex n) = map aid ?rows"
    using True by (simp add: recommended_pool_def Let_def comp_def)
  moreover have "mset ?rows \<subseteq># mset (map fst (score_articles env d w ex))"
    unfolding take_map[symmetric] by (rule mset_take_subset)
  then have sub: "mset ?rows \<subseteq># mset (candidate_query env d w ex)"
    by (simp only: map_fst_score_articles)
  then have "mset ?rows \<subseteq># mset (tbl_articles d)"
    using mset_candidate_query_subset subset_mset.order_trans by blast
  moreover have "\<forall>a \<in> set ?rows. aid a \<notin> ex"
    using set_mset_mono[OF sub] candidate_query_not_excluded by fastforce
  ultimately show ?thesis by blast
next
  case False
  then have "recommended_pool env d w ex n = []"
    by (auto simp: recommended_pool_def Let_def)
  then show ?thesis by (intro exI[of _ "[]"]) simp
qed

lemma recommended_pool_type:
  "x \<in> set (recommended_pool env d w ex n) \<Longrightarrow> recommendation_type x = Some ''recommended''"
  by (auto simp: recommended_pool_def Let_def split: if_splits)

lemma discovery_pool_ids:
  assumes "mset (sql_random env (filter (\<lambda>a. aid a \<notin> ex) (tbl_articles d)))
           = mset (filter (\<lambda>a. aid a \<notin> ex) (tbl_articles d))"
  shows "\<exists>rows. map d_id (discovery_pool env d ex n) = map aid rows \<and>
          mset rows \<subseteq># mset (tbl_articles d) \<and> (\<forall>a \<in> set rows. aid a \<notin> ex)"
proof (cases "0 < n")
  case True
  let ?pool = "filter (\<lambda>a. aid a \<notin> ex) (tbl_articles d)"
  let ?rows = "sql_limit n (sql_random env ?pool)"
  have "map d_id (discovery_pool env d ex n) = map aid ?rows"
    using True by (simp add: discovery_pool_def get_random_articles_def comp_def)
  moreover have sub: "mset ?rows \<subseteq># mset ?pool"
    using mset_sql_limit_subset[of n "sql_random env ?pool"] assms by simp
  then have "mset ?rows \<subseteq># mset (tbl_articles d)"
    by (metis mset_filter multiset_filter_subset subset_mset.order_trans)
  moreover have "\<forall>a \<in> set ?rows. aid a \<notin> ex"
    using set_mset_mono[OF sub] by auto
  ultimately show ?thesis by blast
next
  case False
  then have "discovery_pool env d ex n = []"
    by (simp add: discovery_pool_def)
  then show ?thesis by (intro exI[of _ "[]"]) simp
qed

lemma discovery_pool_type:
  "x \<in> set (discovery_pool env d ex n) \<Longrightarrow> recommendation_type x = Some ''discovery''"
  by (auto simp: discovery_pool_def split: if_splits)

lemma get_recommendations_unfold:
  "\<exists>w. get_category_weights d user_id = Inr w \<and>
     get_recommendations env d user_id cnt feed_mix excluded =
       Inr (py_slice_to cnt (py_shuffle env
         (recommended_pool env d w (set (excluded @ get_read_articles d user_id))
            (recommend_count cnt feed_mix)
          @ discovery_pool env d (set (excluded @ get_read_articles d user_id))
              (random_count cnt feed_mix))))"
proof -
  obtain w where "get_category_weights d user_id = Inr w"
    using get_category_weights_total by blast
  then show ?thesis by (simp add: get_recommendations_def Let_def)
qed

lemma length_py_slice_to: "0 \<le> n \<Longrightarrow> int (length (py_slice_to n xs)) \<le> n"
  by (simp add: py_slice_to_def)

lemma permuting_plain: "permuting env_plain"
  by (simp add: permuting_def env_plain_def)

lemma feed_pools:
  assumes "permuting env" and "distinct (map aid (tbl_articles d))"
  shows "\<exists>feed. get_recommendations env d user_id cnt feed_mix excluded = Inr feed \<and>
           (\<forall>x \<in> set feed. d_id x \<in> aid ` set (tbl_articles d) \<and>
                            d_id x \<notin> set excluded \<union> set (get_read_articles d user_id)) \<and>
           distinct (map d_id (filter (\<lambda>x. recommendation_type x = Some ''recommended'') feed)) \<and>
           distinct (map d_id (filter (\<lambda>x. recommendation_type x = Some ''discovery'') feed))"
proof -
  define ex where "ex = set (excluded @ get_read_articles d user_id)"
  obtain w where feed_eq:
    "get_recommendations env d user_id cnt feed_mix excluded =
       Inr (py_slice_to cnt (py_shuffle env
         (recommended_pool env d w ex (recommend_count cnt feed_mix)
          @ discovery_pool env d ex (random_count cnt feed_mix))))"
    using get_recommendations_unfold[of d user_id env cnt feed_mix excluded]
    unfolding ex_def by blast
  define R where "R = recommended_pool env d w ex (recommend_count cnt feed_mix)"
  define D where "D = discovery_pool env d ex (random_count cnt feed_mix)"
  define feed where "feed = py_slice_to cnt (py_shuffle env (R @ D))"
  have shuffle: "mset (py_shuffle env (R @ D)) = mset (R @ D)"
    using assms(1) by (simp add: permuting_def)
  have sub: "mset feed \<subseteq># mset (R @ D)"
    unfolding feed_def using mset_py_slice_to_subset[of cnt "py_shuffle env (R @ D)"] shuffle
    by simp
  obtain rrows where rrows: "map d_id R = map aid rrows" "mset rrows \<subseteq># mset (tbl_articles d)"
      "\<forall>a \<in> set rrows. aid a \<notin> ex"
    using recommended_pool_ids[of env d w ex "recommend_count cnt feed_mix"] unfolding R_def by blast
  have "mset (sql_random env (filter (\<lambda>a. aid a \<notin> ex) (tbl_articles d)))
           = mset (filter (\<lambda>a. aid a \<notin> ex) (tbl_articles d))"
    using assms(1) unfolding permuting_def by blast
  from discovery_pool_ids[OF this, of "random_count cnt feed_mix"]
  obtain drows where drows: "map d_id D = map aid drows" "mset drows \<subseteq># mset (tbl_articles d)"
      "\<forall>a \<in> set drows. aid a \<notin> ex"
    unfolding D_def by blast
  have Rtype: "\<forall>x \<in> set R. recommendation_type x = Some ''recommended''"
    unfolding R_def using recommended_pool_type by blast
  have Dtype: "\<forall>x \<in> set D. recommendation_type x = Some ''discovery''"
    unfolding D_def using discovery_pool_type by blast
  have dR: "distinct (map d_id R)"
    unfolding rrows(1) using distinct_map_mset_subset[OF rrows(2) assms(2)] .
  have dD: "distinct (map d_id D)"
    unfolding drows(1) using distinct_map_mset_subset[OF drows(2) assms(2)] .
  have ids: "d_id x \<in> aid ` set (tbl_articles d) \<and> d_id x \<notin> ex" if "x \<in> set (R @ D)" for x
  proof -
    have "d_id x \<in> set (map d_id R) \<union> set (map d_id D)" using that by auto
    then have "d_id x \<in> aid ` set rrows \<union> aid ` set drows"
      unfolding rrows(1) drows(1) by simp
    then show ?thesis
      using rrows(3) drows(3) set_mset_mono[OF rrows(2)] set_mset_mono[OF drows(2)] by auto
  qed
  have part1: "\<forall>x \<in> set feed. d_id x \<in> aid ` set (tbl_articles d) \<and>
                 d_id x \<notin> set excluded \<union> set (get_read_articles d user_id)"
    using ids set_mset_mono[OF sub] unfolding ex_def by auto
  have fR: "filter (\<lambda>x. recommendation_type x = Some ''recommended'') (R @ D) = R"
    using Rtype Dtype by (simp add: filter_id_conv filter_empty_conv)
  have fD: "filter (\<lambda>x. recommendation_type x = Some ''discovery'') (R @ D) = D"
    using Rtype Dtype by (simp add: filter_id_conv filter_empty_conv)
  have subP: "mset (filter P feed) \<subseteq># mset (filter P (R @ D))" for P
    using multiset_filter_mono[OF sub, of P] by simp
  have part2: "distinct (map d_id (filter (\<lambda>x. recommendation_type x = Some ''recommended'') feed))"
    using distinct_map_mset_subset[OF subP[of "\<lambda>x. recommendation_type x = Some ''recommended''"]]
      dR unfolding fR by blast
  have part3: "distinct (map d_id (filter (\<lambda>x. recommendation_type x = Some ''discovery'') feed))"
    using distinct_map_mset_subset[OF subP[of "\<lambda>x. recommendation_type x = Some ''discovery''"]]
      dD unfolding fD by blast
  show ?thesis
    using feed_eq part1 part2 part3 unfolding R_def[symmetric] D_def[symmetric] feed_def[symmetric]
    by blast
qed

lemma feed_counts:
  assumes perm: "permuting env"
    and w: "get_category_weights d user_id = Inr w"
    and rc: "0 \<le> recommend_count cnt feed_mix"
      "recommend_count cnt feed_mix \<le> int (length (score_articles env d w (set (excluded @ get_read_articles d user_id))))"
    and dc: "0 \<le> random_count cnt feed_mix"
      "random_count cnt feed_mix \<le> int (length (filter (\<lambda>a. aid a \<notin> set (excluded @ get_read_articles d user_id)) (tbl_articles d)))"
  shows "\<exists>feed. get_recommendations env d user_id cnt feed_mix excluded = Inr feed \<and>
           int (length (filter (\<lambda>x. recommendation_type x = Some ''recommended'') feed)) = recommend_count cnt feed_mix \<and>
           int (length (filter (\<lambda>x. recommendation_type x = Some ''discovery'') feed)) = random_count cnt feed_mix \<and>
           int (length feed) = cnt"
proof -
  define ex where "ex = set (excluded @ get_read_articles d user_id)"
  define R where "R = recommended_pool env d w ex (recommend_count cnt feed_mix)"
  define D where "D = discovery_pool env d ex (random_count cnt feed_mix)"
  define feed where "feed = py_slice_to cnt (py_shuffle env (R @ D))"
  have feed_eq: "get_recommendations env d user_id cnt feed_mix excluded = Inr feed"
    using w by (simp add: get_recommendations_def Let_def feed_def R_def D_def ex_def)
  have lenR: "int (length R) = recommend_count cnt feed_mix"
    using rc unfolding R_def recommended_pool_def Let_def ex_def by auto
  have "length (sql_random env (filter (\<lambda>a. aid a \<notin> ex) (tbl_articles d)))
        = length (filter (\<lambda>a. aid a \<notin> ex) (tbl_articles d))"
    using perm unfolding permuting_def by (metis mset_eq_length)
  then have lenD: "int (length D) = random_count cnt feed_mix"
    using dc unfolding D_def discovery_pool_def get_random_articles_def sql_limit_def ex_def
    by auto
  have cnt: "cnt = recommend_count cnt feed_mix + random_count cnt feed_mix"
    by (simp add: random_count_def)
  have shuffle: "mset (py_shuffle env (R @ D)) = mset (R @ D)"
    using perm by (simp add: permuting_def)
  then have "length (py_shuffle env (R @ D)) = length (R @ D)"
    by (rule mset_eq_length)
  then have feed_all: "feed = py_shuffle env (R @ D)"
    unfolding feed_def py_slice_to_def using lenR lenD cnt rc(1) dc(1) by auto
  have Rtype: "\<forall>x \<in> set R. recommendation_type x = Some ''recommended''"
    unfolding R_def using recommended_pool_type by blast
  have Dtype: "\<forall>x \<in> set D. recommendation_type x = Some ''discovery''"
    unfolding D_def using discovery_pool_type by blast
  have fR: "filter (\<lambda>x. recommendation_type x = Some ''recommended'') (R @ D) = R"
    using Rtype Dtype by (simp add: filter_id_conv filter_empty_conv)
  have fD: "filter (\<lambda>x. recommendation_type x = Some ''discovery'') (R @ D) = D"
    using Rtype Dtype by (simp add: filter_id_conv filter_empty_conv)
  have lenP: "length (filter P feed) = length (filter P (R @ D))" for P
  proof -
    have "mset (filter P (py_shuffle env (R @ D))) = mset (filter P (R @ D))"
      using shuffle by simp
    then show ?thesis unfolding feed_all by (rule mset_eq_length)
  qed
  have "int (length feed) = cnt"
    using feed_all mset_eq_length[OF shuffle] lenR lenD cnt by simp
  then show ?thesis
    using feed_eq lenP[of "\<lambda>x. recommendation_type x = Some ''recommended''"]
      lenP[of "\<lambda>x. recommendation_type x = Some ''discovery''"] lenR lenD
    unfolding fR fD by simp
qed

lemmas float_eval = recommend_count_def float_mul_def float_sub_def py_float_def py_int_def
  mantissa_min_def round_half_even_def Let_def round_mantissa.simps

text \<open>
  The split at some inputs, as Python computes it: \<open>int(10 * (1 - 0.9))\<close> is 0,
  \<open>int(20 * (1 - 0.8))\<close> is 3, \<open>int(50 * (1 - 0.34))\<close> is 32, \<open>int(10 * (1 - 0.1))\<close> is 9.
\<close>

lemma recommend_count_examples:
  "recommend_count 10 (py_float 0.9) = 0 \<and> recommend_count 20 (py_float 0.8) = 3 \<and>
   recommend_count 50 (py_float 0.34) = 32 \<and> recommend_count 10 (py_float 0.1) = 9"
  by (simp add: float_eval)

lemma round_half_even_nonneg: "0 \<le> x \<Longrightarrow> 0 \<le> round_half_even x"
  by (auto simp: round_half_even_def Let_def)

lemma round_mantissa_nonneg: "0 \<le> round_mantissa x"
proof (induction x rule: round_mantissa.induct)
  case (1 x)
  show ?case
  proof (cases "x \<le> 0")
    case True
    then show ?thesis by (subst round_mantissa.simps) simp
  next
    case pos: False
    show ?thesis
    proof (cases "x < mantissa_min")
      case True
      with pos "1.IH"(1) show ?thesis by (subst round_mantissa.simps) simp
    next
      case nsmall: False
      show ?thesis
      proof (cases "2 * mantissa_min \<le> x")
        case True
        with pos nsmall "1.IH"(2) show ?thesis by (subst round_mantissa.simps) simp
      next
        case False
        with pos nsmall round_half_even_nonneg[of x] show ?thesis
          by (subst round_mantissa.simps) simp
      qed
    qed
  qed
qed

lemma py_float_nonneg: "0 \<le> x \<Longrightarrow> 0 \<le> py_float x"
  by (simp add: py_float_def round_mantissa_nonneg)

lemma split_formula:
  assumes "0 \<le> cnt" and "feed_mix \<le> 1"
  shows "recommend_count cnt feed_mix =
           \<lfloor>float_mul (py_float (real_of_int cnt)) (float_sub 1 feed_mix)\<rfloor>"
proof -
  have "0 \<le> py_float (real_of_int cnt)" using assms(1) by (simp add: py_float_nonneg)
  moreover have "0 \<le> float_sub 1 feed_mix"
    using assms(2) by (simp add: float_sub_def py_float_nonneg)
  ultimately have "0 \<le> float_mul (py_float (real_of_int cnt)) (float_sub 1 feed_mix)"
    by (simp add: float_mul_def py_float_nonneg)
  then show ?thesis by (simp add: recommend_count_def py_int_def)
qed

lemma split_20: "recommend_count 20 (py_float 0.3) = 14 \<and> random_count 20 (py_float 0.3) = 6"
  by (simp add: random_count_def float_eval)

lemma get_recommendations_eval:
  assumes "get_category_weights d user_id = Inr w" and "recommend_count cnt feed_mix = n"
  shows "get_recommendations env d user_id cnt feed_mix excluded =
           Inr (py_slice_to cnt (py_shuffle env
             (recommended_pool env d w (set (excluded @ get_read_articles d user_id)) n
              @ discovery_pool env d (set (excluded @ get_read_articles d user_id)) (cnt - n))))"
  using assms by (simp add: get_recommendations_def Let_def random_count_def)

section \<open>The claims\<close>

subsection \<open>C1: negative scores in the recommendation path\<close>

text \<open>
  Claim C1 says that a category whose accumulated score is negative keeps a negative
  weight in the recommendation path. The code does otherwise, by an explicit guard:
  \<open>_get_category_weights\<close> stores \<open>max(0.1, total)\<close> for every row of its query and then
  divides by the largest stored value. As amended: the call always returns, every category
  of the query result gets a weight, and every weight is strictly positive and at most 1,
  so a negative accumulated score is not preserved.
\<close>

theorem category_weights_clamped:
  "\<exists>w. get_category_weights d user_id = Inr w \<and>
       (\<forall>p \<in> set w. 0 < snd p \<and> snd p \<le> 1) \<and>
       fst ` set w = fst ` set (weight_query d user_id)"
  by (rule get_category_weights_total)

text \<open>On the store with a viewed Science article and a skipped Sports article.\<close>

theorem category_weights_clamped_witness:
  "weight_query db_mixed ''captain'' = [(''Science'', 1), (''Sports'', - 2)] \<and>
   (\<exists>w. get_category_weights db_mixed ''captain'' = Inr w \<and>
        list_all (\<lambda>p. 0 < snd p \<and> snd p \<le> 1) w \<and>
        fst ` set w = {''Science'', ''Sports''})"
proof -
  have q: "weight_query db_mixed ''captain'' = [(''Science'', 1), (''Sports'', - 2)]"
    by code_simp
  show ?thesis
    using category_weights_clamped [of db_mixed "''captain''"] q
    by (auto simp: list_all_iff)
qed

text \<open>
  One skip of ten minutes on a Sports article: the accumulated sum of Sports is \<open>-2\<close>,
  and the weight of Sports is \<open>1\<close>.
\<close>

theorem category_weights_negative_counterexample:
  "weight_groups db_skip ''captain'' = [(''Sports'', - 2, - 2)] \<and>
   get_category_weights db_skip ''captain'' = Inr [(''Sports'', 1)]"
  by code_simp

subsection \<open>C2: repeated articles in a feed\<close>

text \<open>
  Claim C2 says that the discovery sample leaves out the articles already picked as
  recommended, so that no article is in the feed twice. The code passes the same
  exclusion set (the caller's list and the read articles) to the ranked query and to the
  random query, and nothing removes the ranked picks from the random pool. As amended:
  when article identifiers are unique and the random sources only reorder, the call
  returns, every entry is a stored article outside the exclusion set, and no article is
  repeated among the recommended entries nor among the discovery entries; one article
  can be in the feed once under each label.
\<close>

theorem feed_repeats_only_across_pools:
  assumes "permuting env" and "distinct (map aid (tbl_articles d))"
  shows "\<exists>feed. get_recommendations env d user_id cnt feed_mix excluded = Inr feed \<and>
           (\<forall>x \<in> set feed. d_id x \<in> aid ` set (tbl_articles d) \<and>
                            d_id x \<notin> set excluded \<union> set (get_read_articles d user_id)) \<and>
           distinct (map d_id (filter (\<lambda>x. recommendation_type x = Some ''recommended'') feed)) \<and>
           distinct (map d_id (filter (\<lambda>x. recommendation_type x = Some ''discovery'') feed))"
  using assms by (rule feed_pools)

theorem feed_repeats_only_across_pools_witness:
  "permuting env_plain \<and> distinct (map aid (tbl_articles db_twenty)) \<and>
   (\<exists>feed. get_recommendations env_plain db_twenty ''captain'' 4 0.5 [3] = Inr feed \<and>
      list_all (\<lambda>x. d_id x \<in> aid ` set (tbl_articles db_twenty) \<and> d_id x \<noteq> 3) feed \<and>
      distinct (map d_id (filter (\<lambda>x. recommendation_type x = Some ''recommended'') feed)) \<and>
      distinct (map d_id (filter (\<lambda>x. recommendation_type x = Some ''discovery'') feed)))"
proof -
  have p: "permuting env_plain" by (rule permuting_plain)
  have d: "distinct (map aid (tbl_articles db_twenty))" by code_simp
  show ?thesis
    using feed_repeats_only_across_pools [OF p d, of "''captain''" 4 "0.5" "[3]"] p d
    by (auto simp: list_all_iff)
qed

text \<open>
  One stored article, no event, a feed of two with half of it discovery: the article is
  returned twice.
\<close>

theorem feed_repeats_counterexample:
  "feed_labels (get_recommendations env_plain db_one ''captain'' 2 0.5 []) =
     Inr [(1, Some ''recommended''), (1, Some ''discovery'')]"
proof -
  have w: "get_category_weights db_one ''captain'' = Inr []" by code_simp
  have n: "recommend_count 2 0.5 = 1" by (simp add: float_eval)
  have "feed_labels (Inr (py_slice_to 2 (py_shuffle env_plain
          (recommended_pool env_plain db_one [] (set ([] @ get_read_articles db_one ''captain'')) 1
           @ discovery_pool env_plain db_one (set ([] @ get_read_articles db_one ''captain''))
               (2 - 1))))) =
        Inr [(1, Some ''recommended''), (1, Some ''discovery'')]"
    by code_simp
  then show ?thesis unfolding get_recommendations_eval [OF w n] .
qed

subsection \<open>C3: normalisation by a zero maximum\<close>

text \<open>
  Claim C3 says that the normalisation of \<open>get_user_category_preferences\<close> never divides
  by zero. The code guards the empty dictionary only (\<open>max_score\<close> is 1 then); when
  the largest accumulated score is zero it divides by it. One skip of duration zero gives
  the time factor zero, the accumulated score zero, and the call raises
  ZeroDivisionError.
\<close>

theorem preferences_zero_maximum_raises:
  "category_scores db_zero ''captain'' 30 0 = [(''Sports'', 0)] \<and>
   get_user_category_preferences db_zero ''captain'' 30 0 = Inl ZeroDivisionError"
  by code_simp

subsection \<open>C4: one contribution per event and category\<close>

text \<open>
  Claim C4 says that an event adds its score once to each category of its article. In the
  code the outer query already joins the events with \<open>article_categories\<close>, so an event
  on an article of N categories comes back as N rows, and for each of them the inner loop
  adds the score to all N categories. On the store below every event has the score 2; the
  article in two categories gives each of them 4, the article in one category gives it 2,
  and the normalised weights are 1, 1 and 1/2 where equal contributions would give 1, 1
  and 1.
\<close>

theorem preferences_count_event_per_category_row:
  "row_score 0 (1, ''read'', Some 600, 0, 0) = 2 \<and>
   row_score 0 (2, ''read'', Some 600, 0, 0) = 2 \<and>
   category_scores db_multi ''captain'' 30 0 =
     [(''Science'', 4), (''History'', 4), (''Sports'', 2)] \<and>
   get_user_category_preferences db_multi ''captain'' 30 0 =
     Inr [(''Science'', 1), (''History'', 1), (''Sports'', 1 / 2)]"
  by code_simp

subsection \<open>C5: range of the normalised weights\<close>

text \<open>
  Claim C5 bounds every normalised weight by 1 in absolute value and promises a weight of
  exactly 1 (or exactly -1 when every score is negative). The code divides by the largest
  accumulated score, with its sign, not by the largest absolute value. As amended:
  whenever the call returns a non-empty mapping and the largest accumulated score is
  positive, some category has the weight exactly 1 and every weight is at most 1; the
  weights are not bounded from below, so the absolute value of a weight can exceed 1.
  The amended claim says nothing about a store whose largest accumulated score is not
  positive.
\<close>

theorem preferences_normalised_range:
  assumes "get_user_category_preferences d user_id days now = Inr m" and "m \<noteq> []"
    and "0 < Max (set (map snd (category_scores d user_id days now)))"
  shows "(\<exists>k. (k, 1) \<in> set m) \<and> (\<forall>(k, v) \<in> set m. v \<le> 1)"
  using assms unfolding get_user_category_preferences_def by (rule normalized_bounds)

theorem preferences_normalised_range_witness:
  "get_user_category_preferences db_share ''captain'' 30 0 =
     Inr [(''Science'', 1), (''Sports'', 1 / 2)] \<and>
   0 < Max (set (map snd (category_scores db_share ''captain'' 30 0))) \<and>
   (\<exists>k. (k, 1) \<in> set [(''Science'', 1 :: real), (''Sports'', 1 / 2)]) \<and>
   list_all (\<lambda>(k, v). v \<le> 1) [(''Science'', 1 :: real), (''Sports'', 1 / 2)]"
proof -
  have r: "get_user_category_preferences db_share ''captain'' 30 0 =
             Inr [(''Science'', 1), (''Sports'', 1 / 2)]"
    by code_simp
  have pos: "0 < Max (set (map snd (category_scores db_share ''captain'' 30 0)))"
    by code_simp
  show ?thesis
    using preferences_normalised_range [OF r _ pos] r pos by (simp add: list_all_iff)
qed

text \<open>
  A view and a skip of ten minutes each: the largest accumulated score is 1, and the
  weight of the skipped category is \<open>-2\<close>.
\<close>

theorem preferences_range_counterexample:
  "category_scores db_mixed ''captain'' 30 0 = [(''Science'', 1), (''Sports'', - 2)] \<and>
   get_user_category_preferences db_mixed ''captain'' 30 0 =
     Inr [(''Science'', 1), (''Sports'', - 2)] \<and>
   \<not> \<bar>- 2 :: real\<bar> \<le> 1"
  by code_simp

subsection \<open>C6: the split between the two pools\<close>

text \<open>
  Claim C6 gives the split as the floor of \<open>count * (1 - feedMix)\<close> and the rest, and
  promises 14 recommended and 6 discovery entries for a feed of 20 at mix 0.3 whenever 20
  articles are eligible. The code computes \<open>int(count * (1 - feed_mix))\<close> in floats and
  truncates toward zero, and it never refills a short pool: the ranked pool holds at most
  the articles that the ranked query returns. As amended: \<open>recommend_count\<close> is the
  floating-point product of \<open>count\<close> and the floating-point difference \<open>1 - feed_mix\<close>,
  truncated toward zero; it is the floor of that product when \<open>count\<close> is not negative
  and \<open>feed_mix\<close> is at most 1; \<open>random_count\<close> is \<open>count - recommend_count\<close>; the two
  are 14 and 6 for 20 and the float 0.3. When both are between zero and the size of their
  pool and the random sources only reorder, the feed has exactly \<open>recommend_count\<close>
  recommended entries, \<open>random_count\<close> discovery entries and \<open>count\<close> entries in all.
  The pool of the recommended entries is the scored list: the first 500, by descending
  access count, of the articles with a positive identifier that are outside the exclusion
  set and, when the user has category weights, match a weighted category. The pool of
  the discovery entries is the articles outside the exclusion set.
\<close>

theorem feed_split:
  "recommend_count cnt feed_mix =
     py_int (float_mul (py_float (real_of_int cnt)) (float_sub 1 feed_mix)) \<and>
   random_count cnt feed_mix = cnt - recommend_count cnt feed_mix \<and>
   (0 \<le> cnt \<and> feed_mix \<le> 1 \<longrightarrow>
      recommend_count cnt feed_mix =
        \<lfloor>float_mul (py_float (real_of_int cnt)) (float_sub 1 feed_mix)\<rfloor>) \<and>
   recommend_count 20 (py_float 0.3) = 14 \<and> random_count 20 (py_float 0.3) = 6 \<and>
   (permuting env \<and> get_category_weights d user_id = Inr w \<and>
    0 \<le> recommend_count cnt feed_mix \<and>
    recommend_count cnt feed_mix
      \<le> int (length (score_articles env d w (set (excluded @ get_read_articles d user_id)))) \<and>
    0 \<le> random_count cnt feed_mix \<and>
    random_count cnt feed_mix
      \<le> int (length (filter (\<lambda>a. aid a \<notin> set (excluded @ get_read_articles d user_id))
                        (tbl_articles d))) \<longrightarrow>
    (\<exists>feed. get_recommendations env d user_id cnt feed_mix excluded = Inr feed \<and>
       int (length (filter (\<lambda>x. recommendation_type x = Some ''recommended'') feed))
         = recommend_count cnt feed_mix \<and>
       int (length (filter (\<lambda>x. recommendation_type x = Some ''discovery'') feed))
         = random_count cnt feed_mix \<and>
       int (length feed) = cnt))"
proof -
  have "recommend_count cnt feed_mix =
          py_int (float_mul (py_float (real_of_int cnt)) (float_sub 1 feed_mix))"
    by (simp add: recommend_count_def)
  moreover have "random_count cnt feed_mix = cnt - recommend_count cnt feed_mix"
    by (simp add: random_count_def)
  moreover have "0 \<le> cnt \<and> feed_mix \<le> 1 \<longrightarrow>
      recommend_count cnt feed_mix =
        \<lfloor>float_mul (py_float (real_of_int cnt)) (float_sub 1 feed_mix)\<rfloor>"
    using split_formula by blast
  moreover note split_20
  moreover have "(permuting env \<and> get_category_weights d user_id = Inr w \<and>
    0 \<le> recommend_count cnt feed_mix \<and>
    recommend_count cnt feed_mix
      \<le> int (length (score_articles env d w (set (excluded @ get_read_articles d user_id)))) \<and>
    0 \<le> random_count cnt feed_mix \<and>
    random_count cnt feed_mix
      \<le> int (length (filter (\<lambda>a. aid a \<notin> set (excluded @ get_read_articles d user_id))
                        (tbl_articles d))) \<longrightarrow>
    (\<exists>feed. get_recommendations env d user_id cnt feed_mix excluded = Inr feed \<and>
       int (length (filter (\<lambda>x. recommendation_type x = Some ''recommended'') feed))
         = recommend_count cnt feed_mix \<and>
       int (length (filter (\<lambda>x. recommendation_type x = Some ''discovery'') feed))
         = random_count cnt feed_mix \<and>
       int (length feed) = cnt))"
    using feed_counts [of env d user_id w cnt feed_mix excluded] by blast
  ultimately show ?thesis by blast
qed

text \<open>
  Twenty stored articles, no event: the feed of 20 at the float 0.3 has 14 recommended
  and 6 discovery entries.
\<close>

theorem feed_split_witness:
  "permuting env_plain \<and> get_category_weights db_twenty ''captain'' = Inr [] \<and>
   get_read_articles db_twenty ''captain'' = [] \<and>
   length (score_articles env_plain db_twenty [] {}) = 20 \<and>
   length (tbl_articles db_twenty) = 20 \<and>
   (0 :: int) \<le> 20 \<and> py_float 0.3 \<le> 1 \<and>
   \<lfloor>float_mul (py_float (real_of_int 20)) (float_sub 1 (py_float 0.3))\<rfloor> = 14 \<and>
   (\<exists>feed. get_recommendations env_plain db_twenty ''captain'' 20 (py_float 0.3) [] = Inr feed \<and>
      length (filter (\<lambda>x. recommendation_type x = Some ''recommended'') feed) = 14 \<and>
      length (filter (\<lambda>x. recommendation_type x = Some ''discovery'') feed) = 6 \<and>
      length feed = 20)"
proof -
  have p: "permuting env_plain" by (rule permuting_plain)
  have w: "get_category_weights db_twenty ''captain'' = Inr []" by code_simp
  have r: "get_read_articles db_twenty ''captain'' = []" by code_simp
  have s: "length (score_articles env_plain db_twenty [] {}) = 20" by code_simp
  have a: "length (tbl_articles db_twenty) = 20" by code_simp
  have m: "py_float 0.3 \<le> 1" by (simp add: float_eval)
  have n: "recommend_count 20 (py_float 0.3) = 14" "random_count 20 (py_float 0.3) = 6"
    using split_20 by simp_all
  have f: "\<lfloor>float_mul (py_float (real_of_int 20)) (float_sub 1 (py_float 0.3))\<rfloor> = 14"
    using feed_split [of 20 "py_float 0.3"] n m by simp
  have "\<exists>feed. get_recommendations env_plain db_twenty ''captain'' 20 (py_float 0.3) [] = Inr feed \<and>
      int (length (filter (\<lambda>x. recommendation_type x = Some ''recommended'') feed)) = 14 \<and>
      int (length (filter (\<lambda>x. recommendation_type x = Some ''discovery'') feed)) = 6 \<and>
      int (length feed) = 20"
    using feed_split [of 20 "py_float 0.3" env_plain db_twenty "''captain''" "[]" "[]"] p w r s a n
    by simp
  then show ?thesis using p w r s a m f by auto
qed

text \<open>
  Twenty stored articles, none read, all twenty eligible; the user has a weight for
  Science and one article is in Science. The feed of 20 at the float 0.3 has one
  recommended entry and six discovery entries. For a feed of 10 at the float 0.9 the
  recommended count is 0, where the floor of \<open>10 * (1 - 0.9)\<close> is 1; for a feed of 3 at
  mix 1.5 it is \<open>-1\<close>, where the floor is \<open>-2\<close>.
\<close>

theorem feed_split_counterexample:
  "length (tbl_articles db_science) = 20 \<and>
   get_read_articles db_science ''captain'' = [] \<and>
   get_category_weights db_science ''captain'' = Inr [(''Science'', 1)] \<and>
   feed_labels (get_recommendations env_plain db_science ''captain'' 20 (py_float 0.3) []) =
     Inr [(1, Some ''recommended''), (1, Some ''discovery''), (2, Some ''discovery''),
          (3, Some ''discovery''), (4, Some ''discovery''), (5, Some ''discovery''),
          (6, Some ''discovery'')] \<and>
   recommend_count 10 (py_float 0.9) = 0 \<and> \<lfloor>real_of_int 10 * (1 - 0.9)\<rfloor> = (1 :: int) \<and>
   recommend_count 3 1.5 = - 1 \<and> \<lfloor>real_of_int 3 * (1 - 1.5)\<rfloor> = (- 2 :: int)"
proof -
  have w: "get_category_weights db_science ''captain'' = Inr [(''Science'', 1)]"
    by code_simp
  have n: "recommend_count 20 (py_float 0.3) = 14"
    using split_20 by simp
  have "feed_labels (Inr (py_slice_to 20 (py_shuffle env_plain
          (recommended_pool env_plain db_science [(''Science'', 1)]
             (set ([] @ get_read_articles db_science ''captain'')) 14
           @ discovery_pool env_plain db_science
               (set ([] @ get_read_articles db_science ''captain'')) (20 - 14))))) =
        Inr [(1, Some ''recommended''), (1, Some ''discovery''), (2, Some ''discovery''),
          (3, Some ''discovery''), (4, Some ''discovery''), (5, Some ''discovery''),
          (6, Some ''discovery'')]"
    by code_simp
  then have feed:
    "feed_labels (get_recommendations env_plain db_science ''captain'' 20 (py_float 0.3) []) =
       Inr [(1, Some ''recommended''), (1, Some ''discovery''), (2, Some ''discovery''),
          (3, Some ''discovery''), (4, Some ''discovery''), (5, Some ''discovery''),
          (6, Some ''discovery'')]"
    unfolding get_recommendations_eval [OF w n] .
  have store: "length (tbl_articles db_science) = 20 \<and>
               get_read_articles db_science ''captain'' = []"
    by code_simp
  have split: "recommend_count 10 (py_float 0.9) = 0 \<and> recommend_count 3 1.5 = - 1"
    by (simp add: float_eval)
  have floors: "\<lfloor>real_of_int 10 * (1 - 0.9)\<rfloor> = (1 :: int) \<and>
                \<lfloor>real_of_int 3 * (1 - 1.5)\<rfloor> = (- 2 :: int)"
    by simp
  show ?thesis using w feed store split floors by blast
qed

subsection \<open>C7: recording an event\<close>

text \<open>
  Claim C7 says that \<open>record_event\<close> fails, writing nothing, when the article or the user
  reference is invalid. The code checks neither: it inserts the row it is given. As
  amended: for every article identifier and user, stored or not, \<open>record_event\<close>
  appends exactly the one event to the log and leaves the other tables as they are; the
  identifier it returns is larger than every identifier already in the log, and so
  smaller than the one the next call returns.
\<close>

theorem record_event_appends:
  "tbl_engagement (fst (record_event d now article_id etype user_id duration depth)) =
     tbl_engagement d @
       [\<lparr>event_id = snd (record_event d now article_id etype user_id duration depth),
         e_article_id = article_id, e_user_id = user_id, event_type = etype,
         duration_seconds = duration, scroll_depth = depth, timestamp = now\<rparr>] \<and>
   tbl_articles (fst (record_event d now article_id etype user_id duration depth)) =
     tbl_articles d \<and>
   tbl_article_categories (fst (record_event d now article_id etype user_id duration depth)) =
     tbl_article_categories d \<and>
   tbl_categories (fst (record_event d now article_id etype user_id duration depth)) =
     tbl_categories d \<and>
   (\<forall>e \<in> set (tbl_engagement d).
      event_id e < snd (record_event d now article_id etype user_id duration depth)) \<and>
   snd (record_event d now article_id etype user_id duration depth) <
     snd (record_event (fst (record_event d now article_id etype user_id duration depth))
            now' article_id' etype' user_id' duration' depth')"
proof -
  have less: "\<forall>e \<in> set rows. event_id e < lastrowid rows" for rows
  proof
    fix e assume "e \<in> set rows"
    then have "event_id e \<le> Max (set (map event_id rows))" by (intro Max_ge) auto
    moreover have "rows \<noteq> []" using \<open>e \<in> set rows\<close> by auto
    ultimately show "event_id e < lastrowid rows" by (simp add: lastrowid_def)
  qed
  have next_id: "i < lastrowid (rows @ [r])" if "event_id r = i" for rows r i
    using less [of "rows @ [r]"] that by auto
  show ?thesis
    using less [of "tbl_engagement d"]
    by (simp add: record_event_def Let_def next_id)
qed

text \<open>
  On the store with one article and one event: an event for the article 99, which is not
  stored, by a user with no other event.
\<close>

theorem record_event_appends_witness:
  "99 \<notin> aid ` set (tbl_articles db_skip) \<and>
   snd (record_event db_skip 5 99 ''view'' ''nobody'' (Some 0) 0) = 2 \<and>
   map event_id (tbl_engagement (fst (record_event db_skip 5 99 ''view'' ''nobody'' (Some 0) 0)))
     = [1, 2] \<and>
   list_all (\<lambda>e. event_id e < 2) (tbl_engagement db_skip) \<and>
   2 < snd (record_event (fst (record_event db_skip 5 99 ''view'' ''nobody'' (Some 0) 0))
              6 99 ''read'' ''nobody'' (Some 30) 1)"
proof -
  have a: "99 \<notin> aid ` set (tbl_articles db_skip)"
    by (simp add: db_skip_def mk_article_def)
  have i: "snd (record_event db_skip 5 99 ''view'' ''nobody'' (Some 0) 0) = 2"
    by code_simp
  have e: "map event_id (tbl_engagement db_skip) = [1]"
    by code_simp
  show ?thesis
    using record_event_appends [of db_skip 5 99 "''view''" "''nobody''" "Some 0" 0
                                   6 99 "''read''" "''nobody''" "Some 30" 1] a i e
    by (simp add: list_all_iff)
qed

text \<open>
  On the store without articles: the event for article 42 is written and the identifier
  1 is returned.
\<close>

theorem record_event_invalid_reference_counterexample:
  "tbl_articles db_empty = [] \<and>
   record_event db_empty 0 42 ''view'' ''nobody'' (Some 0) 0 =
     (db_empty\<lparr>tbl_engagement :=
        [\<lparr>event_id = 1, e_article_id = 42, e_user_id = ''nobody'', event_type = ''view'',
          duration_seconds = Some 0, scroll_depth = 0, timestamp = 0\<rparr>]\<rparr>, 1)"
  by (simp add: db_empty_def record_event_def lastrowid_def)

subsection \<open>C8: the classifier\<close>

text \<open>
  Claim C8: \<open>extract_categories\<close> is a function of the text alone; the empty text is
  classified as General only; the text "The king died in the ancient battle" is classified
  as History and as People; and a text in which no keyword of any category and no person
  keyword occurs is classified as General only.
\<close>

theorem extract_categories_general:
  "extract_categories '''' = [''General''] \<and>
   ''History'' \<in> set (extract_categories ''The king died in the ancient battle'') \<and>
   ''People'' \<in> set (extract_categories ''The king died in the ancient battle'') \<and>
   ((\<forall>p \<in> set CATEGORY_KEYWORDS. \<forall>kw \<in> set (snd p). \<not> str_in kw (lower text)) \<and>
    (\<forall>kw \<in> set person_keywords. \<not> str_in kw (lower text)) \<longrightarrow>
    extract_categories text = [''General''])"
proof -
  have "extract_categories '''' = [''General'']"
    by code_simp
  moreover have "extract_categories ''The king died in the ancient battle'' =
                   [''History'', ''People'']"
    by code_simp
  ultimately show ?thesis
    using no_keywords_general [of "text"] by simp
qed

theorem extract_categories_general_witness:
  "list_all (\<lambda>p. list_all (\<lambda>kw. \<not> str_in kw (lower ''A quiet Day'')) (snd p)) CATEGORY_KEYWORDS \<and>
   list_all (\<lambda>kw. \<not> str_in kw (lower ''A quiet Day'')) person_keywords \<and>
   extract_categories ''A quiet Day'' = [''General'']"
proof -
  have c: "list_all (\<lambda>p. list_all (\<lambda>kw. \<not> str_in kw (lower ''A quiet Day'')) (snd p))
             CATEGORY_KEYWORDS"
    by code_simp
  have k: "list_all (\<lambda>kw. \<not> str_in kw (lower ''A quiet Day'')) person_keywords"
    by code_simp
  show ?thesis
    using extract_categories_general [of "''A quiet Day''"] c k
    by (simp add: list_all_iff)
qed

subsection \<open>C9: event kinds outside the weight table\<close>

text \<open>
  Claim C9: an event whose kind is none of view, read, bookmark, skip and scroll is neither
  rejected nor left out by \<open>get_user_category_preferences\<close>; its event weight is 1, the
  weight of a view, its score is the score of the same event as a view, and relabelling
  every event of that kind as a view leaves the result of the call as it is.
\<close>

theorem unknown_kind_scored_as_view:
  assumes "etype \<notin> {''view'', ''read'', ''bookmark'', ''skip'', ''scroll''}"
  shows "event_weight etype = 1 \<and> event_weight etype = event_weight ''view'' \<and>
         row_score now (article_id, etype, duration, depth, ts) =
           row_score now (article_id, ''view'', duration, depth, ts) \<and>
         get_user_category_preferences
           (d\<lparr>tbl_engagement :=
                map (\<lambda>e. e\<lparr>event_type := (if event_type e = etype then ''view'' else event_type e)\<rparr>)
                  (tbl_engagement d)\<rparr>) user_id days now
         = get_user_category_preferences d user_id days now"
proof -
  let ?f = "\<lambda>t. if t = etype then ''view'' else t"
  let ?d = "d\<lparr>tbl_engagement := map (\<lambda>e. e\<lparr>event_type := ?f (event_type e)\<rparr>) (tbl_engagement d)\<rparr>"
  have w: "event_weight etype = 1" using assms by (rule event_weight_unknown)
  have wf: "event_weight (?f t) = event_weight t" for t
    using w event_weight_view by simp
  have rows: "preference_rows ?d user_id days now =
                map (\<lambda>(a, t, rest). (a, ?f t, rest)) (preference_rows d user_id days now)"
    by (rule preference_rows_relabel)
  have "list_all2 (\<lambda>r' r. fst r' = fst r \<and> row_score now r' = row_score now r)
          (map (\<lambda>(a, t, rest). (a, ?f t, rest)) rs) rs" for rs
    by (induction rs) (auto simp: row_score_def wf)
  then have "accumulate ?d now (preference_rows ?d user_id days now) [] =
             accumulate d now (preference_rows d user_id days now) []"
    unfolding rows by (intro accumulate_cong article_category_names_engagement)
  then have "get_user_category_preferences ?d user_id days now =
             get_user_category_preferences d user_id days now"
    by (simp add: get_user_category_preferences_def category_scores_def)
  then show ?thesis
    using w event_weight_view by (simp add: row_score_def)
qed

text \<open>The kind \<open>share\<close>, on the store that holds a share and a view.\<close>

theorem unknown_kind_scored_as_view_witness:
  "''share'' \<notin> {''view'', ''read'', ''bookmark'', ''skip'', ''scroll''} \<and>
   event_weight ''share'' = 1 \<and>
   row_score 0 (1, ''share'', Some 600, 0, 0) = row_score 0 (1, ''view'', Some 600, 0, 0) \<and>
   get_user_category_preferences db_share ''captain'' 30 0 =
     Inr [(''Science'', 1), (''Sports'', 1 / 2)] \<and>
   get_user_category_preferences
     (db_share\<lparr>tbl_engagement := [mk_event 1 1 ''view'' 600, mk_event 2 2 ''view'' 300]\<rparr>)
     ''captain'' 30 0 = Inr [(''Science'', 1), (''Sports'', 1 / 2)]"
proof -
  have h: "''share'' \<notin> {''view'', ''read'', ''bookmark'', ''skip'', ''scroll''}"
    by simp
  have r: "get_user_category_preferences db_share ''captain'' 30 0 =
             Inr [(''Science'', 1), (''Sports'', 1 / 2)]"
    by code_simp
  have m: "map (\<lambda>e. e\<lparr>event_type := (if event_type e = ''share'' then ''view'' else event_type e)\<rparr>)
             (tbl_engagement db_share) = [mk_event 1 1 ''view'' 600, mk_event 2 2 ''view'' 300]"
    by (simp add: db_share_def mk_event_def)
  show ?thesis
    using unknown_kind_scored_as_view [OF h, of 0 1 "Some 600" 0 0 db_share "''captain''" 30] r m
    by simp
qed

subsection \<open>C10: the length of a feed\<close>

text \<open>
  Claim C10 bounds the length of the returned list by \<open>count\<close> for every call. The last
  step is the slice \<open>recommendations[:count]\<close>, which for a negative \<open>count\<close> drops
  elements from the end and cannot return fewer than none. As amended: for every
  \<open>count\<close> that is not negative, every \<open>feed_mix\<close> (inside the unit interval or not),
  every exclusion list and every behaviour of the random sources, the call returns a list
  of at most \<open>count\<close> entries.
\<close>

theorem feed_length_at_most_count:
  assumes "0 \<le> cnt"
  shows "\<exists>feed. get_recommendations env d user_id cnt feed_mix excluded = Inr feed \<and>
           int (length feed) \<le> cnt"
  using get_recommendations_unfold [of d user_id env cnt feed_mix excluded]
    length_py_slice_to [OF assms] by auto

text \<open>A feed of three at the mix 2.5, from twenty stored articles with one excluded.\<close>

theorem feed_length_at_most_count_witness:
  "(0 :: int) \<le> 3 \<and> recommend_count 3 2.5 = - 4 \<and> random_count 3 2.5 = 7 \<and>
   (\<exists>feed. get_recommendations env_plain db_twenty ''captain'' 3 2.5 [2] = Inr feed \<and>
      int (length feed) \<le> 3)"
proof -
  have h: "(0 :: int) \<le> 3" by simp
  have n: "recommend_count 3 2.5 = - 4 \<and> random_count 3 2.5 = 7"
    by (simp add: random_count_def float_eval)
  show ?thesis
    using feed_length_at_most_count [OF h, of env_plain db_twenty "''captain''" "2.5" "[2]"] n
    by simp
qed

text \<open>
  A feed of \<open>-1\<close> at the float 0.3: the call returns the empty list, whose length is
  above \<open>-1\<close>.
\<close>

theorem feed_length_negative_count_counterexample:
  "get_recommendations env_plain db_one ''captain'' (- 1) (py_float 0.3) [] = Inr [] \<and>
   \<not> int (length ([] :: article_dict list)) \<le> - 1"
proof -
  have w: "get_category_weights db_one ''captain'' = Inr []" by code_simp
  have n: "recommend_count (- 1) (py_float 0.3) = 0" by (simp add: float_eval)
  have "py_slice_to (- 1) (py_shuffle env_plain
          (recommended_pool env_plain db_one [] (set ([] @ get_read_articles db_one ''captain'')) 0
           @ discovery_pool env_plain db_one (set ([] @ get_read_articles db_one ''captain''))
               (- 1 - 0))) = []"
    by code_simp
  then show ?thesis unfolding get_recommendations_eval [OF w n] by simp
qed

end
